theory Spec2Isabelle
  imports Main "HOL-Library.Char_ord" "HOL-Library.List_Lexorder"
begin

section \<open>HTTP messages\<close>

text \<open>
  The application is two files: \<^verbatim>\<open>routes/health.py\<close> registers one handler,
  \<^verbatim>\<open>main.py\<close> creates the FastAPI application, adds Starlette's CORS middleware and
  includes the router. What a request is answered with is decided by that configuration
  together with the dispatch code of FastAPI and Starlette, so the model has two layers:
  the definitions of the application (\<open>health_check\<close>, \<open>router\<close>, \<open>cors\<close>, \<open>app\<close>), translated
  from the two files, and the library functions they configure, translated from the
  library (Starlette's \<^verbatim>\<open>Response\<close>, \<^verbatim>\<open>Route\<close>, \<^verbatim>\<open>Router\<close>, \<^verbatim>\<open>ExceptionMiddleware\<close>,
  \<^verbatim>\<open>ServerErrorMiddleware\<close> and \<^verbatim>\<open>CORSMiddleware\<close>, FastAPI's request handler and exception
  handler, as of Starlette 0.46 and FastAPI 0.115), each under the name it has there.

  A request is the ASGI scope of an HTTP request and its body. Header names are the
  lower-cased names the server puts into the scope; the path is the decoded path without
  the query string.
\<close>

type_synonym header = "string \<times> string"

record request =
  req_method :: string
  req_path :: string
  req_query :: string
  req_headers :: "header list"
  req_body :: string

text \<open>
  A response is the status code, the raw header list (names lower-cased, as
  \<^verbatim>\<open>Response.init_headers\<close> and \<^verbatim>\<open>MutableHeaders\<close> store them) and the body bytes.
\<close>

record response =
  status_code :: nat
  raw_headers :: "header list"
  body :: string

text \<open>\<^verbatim>\<open>Headers.get\<close>: the value of the first header of that name.\<close>

definition get_header :: "header list \<Rightarrow> string \<Rightarrow> string option" where
  "get_header hs k = map_of hs k"

text \<open>\<^verbatim>\<open>key in headers\<close>.\<close>

definition has_header :: "header list \<Rightarrow> string \<Rightarrow> bool" where
  "has_header hs k = (k \<in> fst ` set hs)"

text \<open>
  \<^verbatim>\<open>MutableHeaders.__setitem__\<close>: the first header of that name is overwritten and the
  later ones are deleted; a new name is appended.
\<close>

fun set_header :: "header list \<Rightarrow> string \<Rightarrow> string \<Rightarrow> header list" where
  "set_header [] k v = [(k, v)]"
| "set_header (h # hs) k v =
     (if fst h = k then (k, v) # filter (\<lambda>h'. fst h' \<noteq> k) hs
      else h # set_header hs k v)"

text \<open>\<^verbatim>\<open>MutableHeaders.update\<close>: one \<^verbatim>\<open>__setitem__\<close> for each item.\<close>

fun update_headers :: "header list \<Rightarrow> header list \<Rightarrow> header list" where
  "update_headers hs [] = hs"
| "update_headers hs (kv # kvs) = update_headers (set_header hs (fst kv) (snd kv)) kvs"

text \<open>\<^verbatim>\<open>MutableHeaders.add_vary_header\<close>.\<close>

definition add_vary_header :: "header list \<Rightarrow> string \<Rightarrow> header list" where
  "add_vary_header hs vary =
     (case get_header hs ''vary'' of
        None \<Rightarrow> set_header hs ''vary'' vary
      | Some existing \<Rightarrow> set_header hs ''vary'' (existing @ '', '' @ vary))"

section \<open>Strings and JSON\<close>

text \<open>\<^verbatim>\<open>sep.join(xs)\<close>.\<close>

fun join :: "string \<Rightarrow> string list \<Rightarrow> string" where
  "join sep [] = []"
| "join sep [x] = x"
| "join sep (x # y # ys) = x @ sep @ join sep (y # ys)"

text \<open>\<^verbatim>\<open>str(n)\<close> for a length.\<close>

definition digit :: "nat \<Rightarrow> char" where
  "digit n = ''0123456789abcdef'' ! n"

fun str_nat :: "nat \<Rightarrow> string" where
  "str_nat n = (if n < 10 then [digit n] else str_nat (n div 10) @ [digit (n mod 10)])"

declare str_nat.simps [simp del]

text \<open>
  \<^verbatim>\<open>json.dumps(content, ensure_ascii=False, separators=(",", ":"))\<close> as
  \<^verbatim>\<open>JSONResponse.render\<close> calls it, for a dict of strings (the handler's return type is
  \<^verbatim>\<open>Dict[str, str]\<close>). A dict is the list of its items in insertion order. The encoder
  escapes the quote, the backslash and the control characters below 0x20.
\<close>

definition json_escape :: "char \<Rightarrow> string" where
  "json_escape c =
     (if c = CHR 0x22 then [CHR 0x5C, CHR 0x22]
      else if c = CHR 0x5C then [CHR 0x5C, CHR 0x5C]
      else if c = CHR 0x08 then [CHR 0x5C, CHR ''b'']
      else if c = CHR 0x0C then [CHR 0x5C, CHR ''f'']
      else if c = CHR 0x0A then [CHR 0x5C, CHR ''n'']
      else if c = CHR 0x0D then [CHR 0x5C, CHR ''r'']
      else if c = CHR 0x09 then [CHR 0x5C, CHR ''t'']
      else if (of_char c :: nat) < 32
        then [CHR 0x5C, CHR ''u'', CHR ''0'', CHR ''0'',
              digit (of_char c div 16), digit (of_char c mod 16)]
      else [c])"

definition json_string :: "string \<Rightarrow> string" where
  "json_string s = [CHR 0x22] @ concat (map json_escape s) @ [CHR 0x22]"

definition json_dumps :: "(string \<times> string) list \<Rightarrow> string" where
  "json_dumps d =
     ''{'' @ join '','' (map (\<lambda>kv. json_string (fst kv) @ '':'' @ json_string (snd kv)) d) @ ''}''"

section \<open>Responses\<close>

text \<open>
  \<^verbatim>\<open>Response.init_headers\<close>: the headers passed in, then \<^verbatim>\<open>content-length\<close> unless it was
  passed or the status is below 200, 204 or 304, then \<^verbatim>\<open>content-type\<close> when the response
  class has a media type and none was passed. The media type is given with its charset
  (\<^verbatim>\<open>text/plain; charset=utf-8\<close> for \<^verbatim>\<open>PlainTextResponse\<close>).
\<close>

definition init_headers :: "nat \<Rightarrow> header list \<Rightarrow> string option \<Rightarrow> string \<Rightarrow> header list" where
  "init_headers status hs media_type content =
     hs
     @ (if \<not> has_header hs ''content-length'' \<and> \<not> (status < 200 \<or> status = 204 \<or> status = 304)
        then [(''content-length'', str_nat (length content))] else [])
     @ (case media_type of
          None \<Rightarrow> []
        | Some ct \<Rightarrow> if has_header hs ''content-type'' then [] else [(''content-type'', ct)])"

definition Response :: "string \<Rightarrow> nat \<Rightarrow> header list \<Rightarrow> string option \<Rightarrow> response" where
  "Response content status hs media_type =
     \<lparr>status_code = status, raw_headers = init_headers status hs media_type content, body = content\<rparr>"

definition JSONResponse :: "(string \<times> string) list \<Rightarrow> nat \<Rightarrow> header list \<Rightarrow> response" where
  "JSONResponse content status hs = Response (json_dumps content) status hs (Some ''application/json'')"

definition PlainTextResponse :: "string \<Rightarrow> nat \<Rightarrow> header list \<Rightarrow> response" where
  "PlainTextResponse content status hs = Response content status hs (Some ''text/plain; charset=utf-8'')"

text \<open>
  \<^verbatim>\<open>RedirectResponse(url)\<close>: an empty 307 whose \<^verbatim>\<open>location\<close> header is set after the
  headers are initialised. The header's value is the percent-quoted URL.
\<close>

definition RedirectResponse :: "string \<Rightarrow> response" where
  "RedirectResponse location =
     (let r = Response [] 307 [] None
      in r\<lparr>raw_headers := set_header (raw_headers r) ''location'' location\<rparr>)"

section \<open>Exceptions and coroutines\<close>

text \<open>
  A Python exception is either Starlette's \<^verbatim>\<open>HTTPException\<close> (status code, detail, headers)
  or any other exception.
\<close>

datatype exn = HTTPException nat string "header list" | Error string

text \<open>
  A call of an \<^verbatim>\<open>async def\<close> function over a server state \<open>'s\<close>: it has finished, with a
  value or an exception and the state it leaves, or it is suspended at an \<^verbatim>\<open>await\<close>, with the
  state at that point and what it does when it is resumed.
\<close>

datatype ('s, 'a) coro = Done "exn + 'a" 's | Await "'s \<Rightarrow> ('s, 'a) coro" 's

text \<open>The number of times a coroutine suspends when it is resumed at once each time.\<close>

primrec suspensions :: "('s, 'a) coro \<Rightarrow> nat" where
  "suspensions (Done r s) = 0"
| "suspensions (Await k s) = Suc (suspensions (k s))"

text \<open>\<^verbatim>\<open>await coroutine\<close>: the coroutine is run to its end.\<close>

primrec drive :: "('s, 'a) coro \<Rightarrow> (exn + 'a) \<times> 's" where
  "drive (Done r s) = (r, s)"
| "drive (Await k s) = drive (k s)"

section \<open>The health handler (routes/health.py)\<close>

text \<open>
  \<^verbatim>\<open>async def health_check() -> T.Dict[str, str]: return {"status": "ok"}\<close>.
  The function has no parameter; \<open>s\<close> is the state of the server when it is called.
\<close>

definition health_check :: "'s \<Rightarrow> ('s, (string \<times> string) list) coro" where
  "health_check s = Done (Inr [(''status'', ''ok'')]) s"

section \<open>Routes\<close>

text \<open>
  An endpoint as a route calls it: from the request and the state to a response or an
  exception, and the state after.
\<close>

type_synonym 's endpoint = "request \<Rightarrow> 's \<Rightarrow> (exn + response) \<times> 's"

text \<open>
  FastAPI's request handler (\<^verbatim>\<open>get_request_handler\<close>) for a handler without parameters,
  with the default response class and no status code: the handler is awaited with no
  argument and its value becomes a \<^verbatim>\<open>JSONResponse\<close> with status 200. The request is not
  read.
\<close>

definition get_request_handler :: "('s \<Rightarrow> ('s, (string \<times> string) list) coro) \<Rightarrow> 's endpoint" where
  "get_request_handler handler req s =
     (case drive (handler s) of
        (Inl e, s') \<Rightarrow> (Inl e, s')
      | (Inr content, s') \<Rightarrow> (Inr (JSONResponse content 200 []), s'))"

text \<open>
  A route: the path it was registered with, its methods in the order Python iterates
  the set (an empty list for \<^verbatim>\<open>None\<close>: any method), and its endpoint.
\<close>

record 's route =
  route_path :: string
  route_methods :: "string list"
  route_endpoint :: "'s endpoint"

datatype match = Match_NONE | Match_PARTIAL | Match_FULL

text \<open>
  \<^verbatim>\<open>path_regex.match(route_path)\<close> for a path without parameters: \<^verbatim>\<open>compile_path\<close> gives the
  regular expression \<^verbatim>\<open>^path$\<close>, and Python's \<^verbatim>\<open>$\<close> matches at the end of the string and
  before a newline that ends it.
\<close>

definition path_regex_match :: "string \<Rightarrow> string \<Rightarrow> bool" where
  "path_regex_match p x = (x = p \<or> x = p @ [CHR 0x0A])"

text \<open>\<^verbatim>\<open>Route.matches\<close>.\<close>

definition matches :: "'s route \<Rightarrow> request \<Rightarrow> match" where
  "matches r req =
     (if path_regex_match (route_path r) (req_path req)
      then (if route_methods r \<noteq> [] \<and> req_method req \<notin> set (route_methods r)
            then Match_PARTIAL else Match_FULL)
      else Match_NONE)"

text \<open>\<^verbatim>\<open>Route.handle\<close>, inside an application: a method the route does not have raises 405.\<close>

definition handle :: "'s route \<Rightarrow> 's endpoint" where
  "handle r req s =
     (if route_methods r \<noteq> [] \<and> req_method req \<notin> set (route_methods r)
      then (Inl (HTTPException 405 ''Method Not Allowed'' [(''allow'', join '', '' (route_methods r))]), s)
      else route_endpoint r req s)"

text \<open>
  The loop of \<^verbatim>\<open>Router.app\<close>: the first route that matches in full, else the first that
  matches in part.
\<close>

fun find_route :: "'s route list \<Rightarrow> request \<Rightarrow> 's route option \<Rightarrow> 's route option" where
  "find_route [] req partial = partial"
| "find_route (r # rs) req partial =
     (case matches r req of
        Match_FULL \<Rightarrow> Some r
      | Match_PARTIAL \<Rightarrow> find_route rs req (case partial of None \<Rightarrow> Some r | Some p \<Rightarrow> Some p)
      | Match_NONE \<Rightarrow> find_route rs req partial)"

text \<open>\<^verbatim>\<open>str.rstrip("/")\<close>.\<close>

definition rstrip_slash :: "string \<Rightarrow> string" where
  "rstrip_slash p = rev (dropWhile (\<lambda>c. c = CHR ''/'') (rev p))"

text \<open>The path \<^verbatim>\<open>Router.app\<close> tries when no route matched (\<^verbatim>\<open>redirect_slashes\<close>).\<close>

definition redirect_path :: "string \<Rightarrow> string" where
  "redirect_path p = (if p \<noteq> [] \<and> last p = CHR ''/'' then rstrip_slash p else p @ ''/'')"

section \<open>The router\<close>

text \<open>
  What the model takes as given from the framework: the responses of the four
  documentation endpoints that \<^verbatim>\<open>FastAPI()\<close> registers (by the path of the route), the order
  in which Python iterates their method set \<^verbatim>\<open>{"GET", "HEAD"}\<close>, and the quoted URL that a
  slash redirect sends the client to.
\<close>

record 's framework =
  docs_endpoint :: "string \<Rightarrow> request \<Rightarrow> 's \<Rightarrow> response \<times> 's"
  head_first :: bool
  redirect_url :: "request \<Rightarrow> string \<Rightarrow> string"

text \<open>
  \<^verbatim>\<open>app = FastAPI()\<close>: the constructor adds a Starlette \<^verbatim>\<open>Route\<close> for each documentation
  path (\<^verbatim>\<open>Route\<close> gives an endpoint function the methods GET and HEAD).
\<close>

definition docs_route :: "'s framework \<Rightarrow> string \<Rightarrow> 's route" where
  "docs_route fw p =
     \<lparr>route_path = p,
      route_methods = (if head_first fw then [''HEAD'', ''GET''] else [''GET'', ''HEAD'']),
      route_endpoint = (\<lambda>req s. case docs_endpoint fw p req s of (r, s') \<Rightarrow> (Inr r, s'))\<rparr>"

definition fastapi_setup :: "'s framework \<Rightarrow> 's route list" where
  "fastapi_setup fw = map (docs_route fw) [''/openapi.json'', ''/docs'', ''/docs/oauth2-redirect'', ''/redoc'']"

text \<open>
  \<^verbatim>\<open>@router.get("/health", responses=...)\<close> in routes/health.py: an \<^verbatim>\<open>APIRoute\<close> with the one
  method GET (FastAPI adds no HEAD) whose endpoint is the request handler of
  \<open>health_check\<close>. The \<^verbatim>\<open>responses\<close> argument only documents the route.
\<close>

definition router :: "'s route list" where
  "router = [\<lparr>route_path = ''/health'', route_methods = [''GET''],
              route_endpoint = get_request_handler health_check\<rparr>]"

text \<open>\<^verbatim>\<open>app.include_router(health.router, tags=["health"])\<close> appends the router's routes.\<close>

definition routes :: "'s framework \<Rightarrow> 's route list" where
  "routes fw = fastapi_setup fw @ router"

text \<open>
  \<^verbatim>\<open>Router.app\<close>: the route found handles the request; else a path that matches a route
  once its trailing slashes are removed, or one is added, is redirected; else 404 is
  raised.
\<close>

definition router_app :: "'s framework \<Rightarrow> 's route list \<Rightarrow> 's endpoint" where
  "router_app fw rs req s =
     (case find_route rs req None of
        Some r \<Rightarrow> handle r req s
      | None \<Rightarrow>
          if req_path req \<noteq> ''/''
             \<and> list_ex (\<lambda>r. path_regex_match (route_path r) (redirect_path (req_path req))) rs
          then (Inr (RedirectResponse (redirect_url fw req (redirect_path (req_path req)))), s)
          else (Inl (HTTPException 404 ''Not Found'' []), s))"

section \<open>Exception handling\<close>

text \<open>FastAPI's \<^verbatim>\<open>is_body_allowed_for_status_code\<close> and \<^verbatim>\<open>http_exception_handler\<close>.\<close>

definition is_body_allowed_for_status_code :: "nat \<Rightarrow> bool" where
  "is_body_allowed_for_status_code status =
     (\<not> (status < 200 \<or> status = 204 \<or> status = 205 \<or> status = 304))"

definition http_exception_handler :: "nat \<Rightarrow> string \<Rightarrow> header list \<Rightarrow> response" where
  "http_exception_handler status detail hs =
     (if \<not> is_body_allowed_for_status_code status then Response [] status hs None
      else JSONResponse [(''detail'', detail)] status hs)"

text \<open>
  \<^verbatim>\<open>ExceptionMiddleware\<close>: an \<^verbatim>\<open>HTTPException\<close> of the inner application becomes the response
  of its handler; any other exception passes.
\<close>

definition ExceptionMiddleware :: "'s endpoint \<Rightarrow> 's endpoint" where
  "ExceptionMiddleware inner req s =
     (case inner req s of
        (Inl (HTTPException status detail hs), s') \<Rightarrow> (Inr (http_exception_handler status detail hs), s')
      | (Inl (Error e), s') \<Rightarrow> (Inl (Error e), s')
      | (Inr r, s') \<Rightarrow> (Inr r, s'))"

text \<open>
  \<^verbatim>\<open>ServerErrorMiddleware\<close>: an exception that reaches it is answered with the plain-text
  500 (and raised again for the server to log, which no client sees).
\<close>

definition ServerErrorMiddleware :: "'s endpoint \<Rightarrow> request \<Rightarrow> 's \<Rightarrow> response \<times> 's" where
  "ServerErrorMiddleware inner req s =
     (case inner req s of
        (Inl e, s') \<Rightarrow> (PlainTextResponse ''Internal Server Error'' 500 [], s')
      | (Inr r, s') \<Rightarrow> (r, s'))"

section \<open>The CORS middleware\<close>

text \<open>
  The arguments of \<^verbatim>\<open>CORSMiddleware\<close> that main.py passes. The others keep their defaults:
  no origin regex, no exposed headers, a max age of 600.
\<close>

record cors_config =
  allow_origins :: "string list"
  allow_credentials :: bool
  allow_methods :: "string list"
  allow_headers :: "string list"

definition ALL_METHODS :: "string list" where
  "ALL_METHODS = [''DELETE'', ''GET'', ''HEAD'', ''OPTIONS'', ''PATCH'', ''POST'', ''PUT'']"

definition SAFELISTED_HEADERS :: "string list" where
  "SAFELISTED_HEADERS = [''Accept'', ''Accept-Language'', ''Content-Language'', ''Content-Type'']"

text \<open>\<^verbatim>\<open>str.lower\<close>, \<^verbatim>\<open>str.split(",")\<close> and \<^verbatim>\<open>str.strip\<close>, on ASCII.\<close>

definition lower_char :: "char \<Rightarrow> char" where
  "lower_char c =
     (if (65::nat) \<le> of_char c \<and> (of_char c :: nat) \<le> 90 then char_of (of_char c + (32::nat)) else c)"

definition lower :: "string \<Rightarrow> string" where
  "lower s = map lower_char s"

fun split_comma :: "string \<Rightarrow> string list" where
  "split_comma [] = [[]]"
| "split_comma (c # cs) =
     (if c = CHR '','' then [] # split_comma cs
      else (case split_comma cs of [] \<Rightarrow> [[c]] | w # ws \<Rightarrow> (c # w) # ws))"

definition is_space :: "char \<Rightarrow> bool" where
  "is_space c = (c \<in> {CHR '' '', CHR 0x09, CHR 0x0A, CHR 0x0B, CHR 0x0C, CHR 0x0D})"

definition strip :: "string \<Rightarrow> string" where
  "strip s = rev (dropWhile is_space (rev (dropWhile is_space s)))"

text \<open>The attributes \<^verbatim>\<open>CORSMiddleware.__init__\<close> computes from its arguments.\<close>

definition cors_methods :: "cors_config \<Rightarrow> string list" where
  "cors_methods cfg = (if ''*'' \<in> set (allow_methods cfg) then ALL_METHODS else allow_methods cfg)"

definition allow_all_origins :: "cors_config \<Rightarrow> bool" where
  "allow_all_origins cfg = (''*'' \<in> set (allow_origins cfg))"

definition allow_all_headers :: "cors_config \<Rightarrow> bool" where
  "allow_all_headers cfg = (''*'' \<in> set (allow_headers cfg))"

definition preflight_explicit_allow_origin :: "cors_config \<Rightarrow> bool" where
  "preflight_explicit_allow_origin cfg = (\<not> allow_all_origins cfg \<or> allow_credentials cfg)"

definition sorted_allow_headers :: "cors_config \<Rightarrow> string list" where
  "sorted_allow_headers cfg = sort (remdups (SAFELISTED_HEADERS @ allow_headers cfg))"

definition simple_headers :: "cors_config \<Rightarrow> header list" where
  "simple_headers cfg =
     (if allow_all_origins cfg then [(''access-control-allow-origin'', ''*'')] else [])
     @ (if allow_credentials cfg then [(''access-control-allow-credentials'', ''true'')] else [])"

definition preflight_headers :: "cors_config \<Rightarrow> header list" where
  "preflight_headers cfg =
     (if preflight_explicit_allow_origin cfg then [(''vary'', ''Origin'')]
      else [(''access-control-allow-origin'', ''*'')])
     @ [(''access-control-allow-methods'', join '', '' (cors_methods cfg)),
        (''access-control-max-age'', ''600'')]
     @ (if sorted_allow_headers cfg \<noteq> [] \<and> \<not> allow_all_headers cfg
        then [(''access-control-allow-headers'', join '', '' (sorted_allow_headers cfg))] else [])
     @ (if allow_credentials cfg then [(''access-control-allow-credentials'', ''true'')] else [])"

definition is_allowed_origin :: "cors_config \<Rightarrow> string \<Rightarrow> bool" where
  "is_allowed_origin cfg origin = (if allow_all_origins cfg then True else origin \<in> set (allow_origins cfg))"

text \<open>
  \<^verbatim>\<open>CORSMiddleware.preflight_response\<close>. Subscripting the request headers with a name they
  do not have raises \<^verbatim>\<open>KeyError\<close>.
\<close>

definition preflight_response :: "cors_config \<Rightarrow> header list \<Rightarrow> exn + response" where
  "preflight_response cfg request_headers =
     (case get_header request_headers ''origin'' of
        None \<Rightarrow> Inl (Error ''KeyError'')
      | Some requested_origin \<Rightarrow>
     (case get_header request_headers ''access-control-request-method'' of
        None \<Rightarrow> Inl (Error ''KeyError'')
      | Some requested_method \<Rightarrow>
          let requested_headers = get_header request_headers ''access-control-request-headers'';
              hs0 = preflight_headers cfg;
              hs1 = (if is_allowed_origin cfg requested_origin \<and> preflight_explicit_allow_origin cfg
                     then set_header hs0 ''access-control-allow-origin'' requested_origin else hs0);
              f_origin = (if is_allowed_origin cfg requested_origin then [] else [''origin'']);
              f_method = (if requested_method \<notin> set (cors_methods cfg) then [''method''] else []);
              hs2 = (case requested_headers of
                       None \<Rightarrow> hs1
                     | Some rh \<Rightarrow> if allow_all_headers cfg
                                 then set_header hs1 ''access-control-allow-headers'' rh else hs1);
              f_headers = (case requested_headers of
                             None \<Rightarrow> []
                           | Some rh \<Rightarrow>
                               if \<not> allow_all_headers cfg
                                  \<and> list_ex (\<lambda>h. strip h \<notin> set (map lower (sorted_allow_headers cfg)))
                                       (map lower (split_comma rh))
                               then [''headers''] else []);
              failures = f_origin @ f_method @ f_headers
          in if failures \<noteq> []
             then Inr (PlainTextResponse (''Disallowed CORS '' @ join '', '' failures) 400 hs2)
             else Inr (PlainTextResponse ''OK'' 200 hs2)))"

text \<open>\<^verbatim>\<open>CORSMiddleware.allow_explicit_origin\<close>.\<close>

definition allow_explicit_origin :: "header list \<Rightarrow> string \<Rightarrow> header list" where
  "allow_explicit_origin hs origin =
     add_vary_header (set_header hs ''access-control-allow-origin'' origin) ''Origin''"

text \<open>\<^verbatim>\<open>CORSMiddleware.send\<close>, on the message that starts the response.\<close>

definition cors_send :: "cors_config \<Rightarrow> header list \<Rightarrow> response \<Rightarrow> exn + response" where
  "cors_send cfg request_headers r =
     (let hs = update_headers (raw_headers r) (simple_headers cfg)
      in case get_header request_headers ''origin'' of
           None \<Rightarrow> Inl (Error ''KeyError'')
         | Some origin \<Rightarrow>
             if allow_all_origins cfg \<and> has_header request_headers ''cookie''
               then Inr (r\<lparr>raw_headers := allow_explicit_origin hs origin\<rparr>)
             else if \<not> allow_all_origins cfg \<and> is_allowed_origin cfg origin
               then Inr (r\<lparr>raw_headers := allow_explicit_origin hs origin\<rparr>)
             else Inr (r\<lparr>raw_headers := hs\<rparr>))"

text \<open>
  \<^verbatim>\<open>CORSMiddleware.__call__\<close>: a request without \<^verbatim>\<open>origin\<close> goes to the inner application
  as it is; an OPTIONS request with \<^verbatim>\<open>access-control-request-method\<close> is answered here; any
  other goes to the inner application and \<open>cors_send\<close> rewrites the headers of its response.
\<close>

definition is_preflight :: "request \<Rightarrow> bool" where
  "is_preflight req =
     (get_header (req_headers req) ''origin'' \<noteq> None \<and> req_method req = ''OPTIONS''
      \<and> has_header (req_headers req) ''access-control-request-method'')"

definition CORSMiddleware :: "cors_config \<Rightarrow> 's endpoint \<Rightarrow> 's endpoint" where
  "CORSMiddleware cfg inner req s =
     (case get_header (req_headers req) ''origin'' of
        None \<Rightarrow> inner req s
      | Some origin \<Rightarrow>
          if req_method req = ''OPTIONS'' \<and> has_header (req_headers req) ''access-control-request-method''
          then (preflight_response cfg (req_headers req), s)
          else (case inner req s of
                  (Inl e, s') \<Rightarrow> (Inl e, s')
                | (Inr r, s') \<Rightarrow> (cors_send cfg (req_headers req) r, s')))"

section \<open>The application (main.py)\<close>

text \<open>
  \<^verbatim>\<open>app.add_middleware(CORSMiddleware, allow_origins=["*"], allow_credentials=True,
  allow_methods=["*"], allow_headers=["*"])\<close>.
\<close>

definition cors :: cors_config where
  "cors = \<lparr>allow_origins = [''*''], allow_credentials = True,
           allow_methods = [''*''], allow_headers = [''*'']\<rparr>"

text \<open>
  The middleware stack that the application builds on its first request: the server error
  middleware, the middleware added by main.py, the exception middleware, the router.
\<close>

definition app :: "'s framework \<Rightarrow> request \<Rightarrow> 's \<Rightarrow> response \<times> 's" where
  "app fw = ServerErrorMiddleware (CORSMiddleware cors (ExceptionMiddleware (router_app fw (routes fw))))"

text \<open>The server answers a sequence of requests one after the other.\<close>

fun serve :: "'s framework \<Rightarrow> request list \<Rightarrow> 's \<Rightarrow> response list \<times> 's" where
  "serve fw [] s = ([], s)"
| "serve fw (req # reqs) s =
     (case app fw req s of (r, s') \<Rightarrow> (case serve fw reqs s' of (rs, s'') \<Rightarrow> (r # rs, s'')))"

text \<open>A framework value for evaluating the application on concrete requests.\<close>

definition sample_framework :: "unit framework" where
  "sample_framework =
     \<lparr>docs_endpoint = (\<lambda>p req s. (Response [] 200 [] None, s)),
      head_first = False,
      redirect_url = (\<lambda>req p. p)\<rparr>"

text \<open>The paths of the routes of the application, in the order of registration.\<close>

definition registered_paths :: "string list" where
  "registered_paths = [''/openapi.json'', ''/docs'', ''/docs/oauth2-redirect'', ''/redoc'', ''/health'']"

section \<open>Concrete requests\<close>

definition get_health :: request where
  "get_health = \<lparr>req_method = ''GET'', req_path = ''/health'', req_query = ''verbose=1'',
     req_headers = [(''origin'', ''http://example.com''), (''cookie'', ''session=1'')],
     req_body = ''ignored''\<rparr>"



definition post_health :: request where
  "post_health = \<lparr>req_method = ''POST'', req_path = ''/health'', req_query = [],
     req_headers = [], req_body = []\<rparr>"

definition get_unknown :: request where
  "get_unknown = \<lparr>req_method = ''GET'', req_path = ''/unknown'', req_query = [],
     req_headers = [], req_body = []\<rparr>"

definition preflight_get :: request where
  "preflight_get = \<lparr>req_method = ''OPTIONS'', req_path = ''/health'', req_query = [],
     req_headers = [(''origin'', ''http://example.com''), (''access-control-request-method'', ''GET''),
                    (''access-control-request-headers'', ''x-token'')],
     req_body = []\<rparr>"

definition preflight_trace :: request where
  "preflight_trace = \<lparr>req_method = ''OPTIONS'', req_path = ''/health'', req_query = [],
     req_headers = [(''origin'', ''http://example.com''), (''access-control-request-method'', ''TRACE'')],
     req_body = []\<rparr>"

section \<open>Headers\<close>

lemma map_of_filter_other:
  "k' \<noteq> k \<Longrightarrow> map_of (filter (\<lambda>h. fst h \<noteq> k) hs) k' = map_of hs k'"
  by (induction hs) auto

lemma get_header_set_header:
  "get_header (set_header hs k v) k' = (if k' = k then Some v else get_header hs k')"
  by (induction hs) (auto simp: get_header_def map_of_filter_other)

lemma has_header_get: "has_header hs k = (get_header hs k \<noteq> None)"
  by (simp add: has_header_def get_header_def map_of_eq_None_iff)

lemma get_header_explicit:
  "get_header (allow_explicit_origin hs origin) k =
     (if k = ''vary''
      then (case get_header hs ''vary'' of None \<Rightarrow> Some ''Origin'' | Some e \<Rightarrow> Some (e @ '', Origin''))
      else if k = ''access-control-allow-origin'' then Some origin else get_header hs k)"
  by (simp add: allow_explicit_origin_def add_vary_header_def get_header_set_header split: option.split)

lemma get_header_plain:
  "k \<noteq> ''content-length'' \<Longrightarrow> k \<noteq> ''content-type'' \<Longrightarrow>
   get_header (raw_headers (PlainTextResponse c st hs)) k = get_header hs k"
  by (auto simp: PlainTextResponse_def Response_def init_headers_def get_header_def map_add_def
      split: option.split)

section \<open>The response of the health route\<close>

lemma json_dumps_status: \<open>json_dumps [(''status'', ''ok'')] = ''{"status":"ok"}''\<close>
  by (simp add: json_dumps_def json_string_def json_escape_def)

lemma json_health:
  \<open>JSONResponse [(''status'', ''ok'')] 200 [] =
     \<lparr>status_code = 200,
      raw_headers = [(''content-length'', ''15''), (''content-type'', ''application/json'')],
      body = ''{"status":"ok"}''\<rparr>\<close>
  by (simp add: JSONResponse_def Response_def init_headers_def has_header_def json_dumps_status
      str_nat.simps digit_def)

lemma health_handler:
  "get_request_handler health_check req s = (Inr (JSONResponse [(''status'', ''ok'')] 200 []), s)"
  by (simp add: get_request_handler_def health_check_def)

section \<open>Routing\<close>

lemma route_paths: "map route_path (routes fw) = registered_paths"
  by (simp add: routes_def fastapi_setup_def docs_route_def router_def registered_paths_def)

lemma list_ex_routes:
  "list_ex (\<lambda>r. path_regex_match (route_path r) x) (routes fw)
     = list_ex (\<lambda>p. path_regex_match p x) registered_paths"
proof -
  have "list_ex (\<lambda>p. path_regex_match p x) (map route_path (routes fw))
      = list_ex (\<lambda>r. path_regex_match (route_path r) x) (routes fw)"
    by (simp add: list_ex_iff)
  then show ?thesis by (simp add: route_paths)
qed


lemma find_route_none:
  "\<not> list_ex (\<lambda>r. path_regex_match (route_path r) (req_path req)) rs \<Longrightarrow> find_route rs req p = p"
  by (induction rs arbitrary: p) (auto simp: matches_def)

lemma find_health:
  "path_regex_match ''/health'' (req_path req) \<Longrightarrow> find_route (routes fw) req None = Some (hd router)"
  by (auto simp: routes_def fastapi_setup_def docs_route_def router_def matches_def path_regex_match_def)

lemma router_health:
  "req_method req = ''GET'' \<Longrightarrow> req_path req = ''/health'' \<Longrightarrow>
   router_app fw (routes fw) req s = (Inr (JSONResponse [(''status'', ''ok'')] 200 []), s)"
  by (simp add: router_app_def find_health path_regex_match_def router_def handle_def health_handler)

lemma router_health_405:
  assumes "req_path req = ''/health''" "req_method req \<noteq> ''GET''"
  shows "router_app fw (routes fw) req s
       = (Inl (HTTPException 405 ''Method Not Allowed'' [(''allow'', ''GET'')]), s)"
  using assms
  by (simp add: router_app_def find_health path_regex_match_def router_def handle_def)

lemma router_unmatched:
  assumes "\<not> list_ex (\<lambda>p. path_regex_match p (req_path req)) registered_paths"
  shows "router_app fw (routes fw) req s =
     (if req_path req \<noteq> ''/''
         \<and> list_ex (\<lambda>p. path_regex_match p (redirect_path (req_path req))) registered_paths
      then (Inr (RedirectResponse (redirect_url fw req (redirect_path (req_path req)))), s)
      else (Inl (HTTPException 404 ''Not Found'' []), s))"
  using assms find_route_none [of req "routes fw" None]
  by (simp add: router_app_def list_ex_routes)





lemma http_404:
  "http_exception_handler 404 ''Not Found'' [] = JSONResponse [(''detail'', ''Not Found'')] 404 []"
  by (simp add: http_exception_handler_def is_body_allowed_for_status_code_def)

lemma http_405:
  "http_exception_handler 405 ''Method Not Allowed'' hs
     = JSONResponse [(''detail'', ''Method Not Allowed'')] 405 hs"
  by (simp add: http_exception_handler_def is_body_allowed_for_status_code_def)

section \<open>The middleware stack\<close>

lemma simple_headers_cors:
  "simple_headers cors
     = [(''access-control-allow-origin'', ''*''), (''access-control-allow-credentials'', ''true'')]"
  by (simp add: simple_headers_def cors_def allow_all_origins_def)

lemma get_header_simple:
  "get_header (update_headers hs (simple_headers cors)) k =
     (if k = ''access-control-allow-credentials'' then Some ''true''
      else if k = ''access-control-allow-origin'' then Some ''*'' else get_header hs k)"
  by (simp add: simple_headers_cors get_header_set_header)

lemma cors_send_cors:
  "get_header rh ''origin'' = Some origin \<Longrightarrow>
   cors_send cors rh r =
     Inr (r\<lparr>raw_headers :=
       (if has_header rh ''cookie''
        then allow_explicit_origin (update_headers (raw_headers r) (simple_headers cors)) origin
        else update_headers (raw_headers r) (simple_headers cors))\<rparr>)"
  by (simp add: cors_send_def Let_def allow_all_origins_def cors_def)

lemma preflight_headers_cors:
  "preflight_headers cors =
     [(''vary'', ''Origin''),
      (''access-control-allow-methods'', ''DELETE, GET, HEAD, OPTIONS, PATCH, POST, PUT''),
      (''access-control-max-age'', ''600''),
      (''access-control-allow-credentials'', ''true'')]"
  by (simp add: preflight_headers_def cors_def preflight_explicit_allow_origin_def allow_all_origins_def
      allow_all_headers_def cors_methods_def ALL_METHODS_def)

lemma preflight_headers_lookup:
  "get_header (preflight_headers cors) ''access-control-allow-methods''
     = Some ''DELETE, GET, HEAD, OPTIONS, PATCH, POST, PUT''"
  "get_header (preflight_headers cors) ''access-control-allow-credentials'' = Some ''true''"
  "get_header (preflight_headers cors) ''access-control-allow-headers'' = None"
  by (simp_all add: preflight_headers_cors get_header_def)

lemma preflight_response_cors:
  assumes "get_header rh ''origin'' = Some origin"
    and "get_header rh ''access-control-request-method'' = Some m"
  shows "preflight_response cors rh =
     Inr (PlainTextResponse (if m \<in> set ALL_METHODS then ''OK'' else ''Disallowed CORS method'')
            (if m \<in> set ALL_METHODS then 200 else 400)
            (case get_header rh ''access-control-request-headers'' of
               None \<Rightarrow> set_header (preflight_headers cors) ''access-control-allow-origin'' origin
             | Some h \<Rightarrow>
                 set_header (set_header (preflight_headers cors) ''access-control-allow-origin'' origin)
                   ''access-control-allow-headers'' h))"
  using assms
  by (simp add: preflight_response_def Let_def is_allowed_origin_def allow_all_origins_def
      preflight_explicit_allow_origin_def allow_all_headers_def cors_methods_def cors_def
      split: option.split)

text \<open>A request for the health route: the response of the handler, with the CORS headers
  when the request has an origin.\<close>

lemma app_health:
  assumes "req_method req = ''GET''" "req_path req = ''/health''"
  shows "app fw req s =
    ((case get_header (req_headers req) ''origin'' of
        None \<Rightarrow> JSONResponse [(''status'', ''ok'')] 200 []
      | Some origin \<Rightarrow> (JSONResponse [(''status'', ''ok'')] 200 [])
          \<lparr>raw_headers :=
             (if has_header (req_headers req) ''cookie''
              then allow_explicit_origin
                     (update_headers (raw_headers (JSONResponse [(''status'', ''ok'')] 200 []))
                        (simple_headers cors)) origin
              else update_headers (raw_headers (JSONResponse [(''status'', ''ok'')] 200 []))
                     (simple_headers cors))\<rparr>), s)"
  using assms
  by (simp add: app_def ServerErrorMiddleware_def CORSMiddleware_def ExceptionMiddleware_def
      router_health cors_send_cors split: option.split)

lemma app_health_state:
  "req_method req = ''GET'' \<Longrightarrow> req_path req = ''/health'' \<Longrightarrow> snd (app fw req s) = s"
  by (simp add: app_health)

text \<open>A request that is not a preflight: the CORS middleware keeps the status, the body
  and every header but its own.\<close>

lemma app_not_preflight:
  assumes "\<not> is_preflight req" "ExceptionMiddleware (router_app fw (routes fw)) req s = (Inr r, s')"
  shows "snd (app fw req s) = s' \<and> status_code (fst (app fw req s)) = status_code r
       \<and> body (fst (app fw req s)) = body r
       \<and> (\<forall>k. k \<notin> {''access-control-allow-origin'', ''access-control-allow-credentials'', ''vary''} \<longrightarrow>
            get_header (raw_headers (fst (app fw req s))) k = get_header (raw_headers r) k)"
  using assms
  by (auto simp: app_def ServerErrorMiddleware_def CORSMiddleware_def is_preflight_def cors_send_cors
        get_header_simple get_header_explicit split: option.split)


text \<open>A preflight: the response is the one the CORS middleware builds, and neither the
  router nor the state is touched.\<close>

lemma app_preflight:
  assumes "is_preflight req"
  shows "Inr (fst (app fw req s)) = preflight_response cors (req_headers req) \<and> snd (app fw req s) = s"
proof -
  from assms obtain origin m where
    o: "get_header (req_headers req) ''origin'' = Some origin" and
    m: "get_header (req_headers req) ''access-control-request-method'' = Some m"
    by (auto simp: is_preflight_def has_header_get)
  show ?thesis using assms o
    by (simp add: app_def ServerErrorMiddleware_def CORSMiddleware_def is_preflight_def
        preflight_response_cors [OF o m])
qed

lemma app_preflight_response:
  assumes "is_preflight req" and o: "get_header (req_headers req) ''origin'' = Some origin"
    and m: "get_header (req_headers req) ''access-control-request-method'' = Some m"
  shows "fst (app fw req s) =
     PlainTextResponse (if m \<in> set ALL_METHODS then ''OK'' else ''Disallowed CORS method'')
       (if m \<in> set ALL_METHODS then 200 else 400)
       (case get_header (req_headers req) ''access-control-request-headers'' of
          None \<Rightarrow> set_header (preflight_headers cors) ''access-control-allow-origin'' origin
        | Some h \<Rightarrow>
            set_header (set_header (preflight_headers cors) ''access-control-allow-origin'' origin)
              ''access-control-allow-headers'' h)"
proof -
  from app_preflight [OF assms(1), of fw s]
  have "Inr (fst (app fw req s)) = preflight_response cors (req_headers req)" by simp
  then show ?thesis by (simp add: preflight_response_cors [OF o m])
qed

lemma app_preflight_headers:
  assumes "is_preflight req" and o: "get_header (req_headers req) ''origin'' = Some origin"
    and k: "k \<noteq> ''content-length''" "k \<noteq> ''content-type''"
  shows "get_header (raw_headers (fst (app fw req s))) k =
        (if k = ''access-control-allow-headers''
            \<and> get_header (req_headers req) ''access-control-request-headers'' \<noteq> None
         then get_header (req_headers req) ''access-control-request-headers''
         else if k = ''access-control-allow-origin'' then Some origin
         else get_header (preflight_headers cors) k)"
proof -
  from assms obtain m where
    m: "get_header (req_headers req) ''access-control-request-method'' = Some m"
    by (auto simp: is_preflight_def has_header_get)
  show ?thesis using k
    by (auto simp: app_preflight_response [OF assms(1) o m] get_header_plain get_header_set_header
        split: option.split)
qed

lemma app_preflight_status:
  assumes "is_preflight req"
  shows "status_code (fst (app fw req s)) =
     (if get_header (req_headers req) ''access-control-request-method'' \<in> Some ` set ALL_METHODS
      then 200 else 400)"
proof -
  from assms obtain origin m where
    o: "get_header (req_headers req) ''origin'' = Some origin" and
    m: "get_header (req_headers req) ''access-control-request-method'' = Some m"
    by (auto simp: is_preflight_def has_header_get)
  show ?thesis
    by (auto simp: app_preflight_response [OF assms o m] m PlainTextResponse_def Response_def)
qed

section \<open>The health endpoint\<close>

text \<open>
  Claim C1. Every request with method GET and path \<^verbatim>\<open>/health\<close>, whatever its query string,
  headers and body, is answered with status 200, with the body \<^verbatim>\<open>{"status":"ok"}\<close> (the
  JSON encoding of the handler's dict) and with the content type \<^verbatim>\<open>application/json\<close>,
  for any state of the server and any behaviour of the documentation routes.
\<close>

theorem health_get_ok:
  assumes \<open>req_method req = ''GET''\<close> and \<open>req_path req = ''/health''\<close>
  shows \<open>status_code (fst (app fw req s)) = 200
       \<and> body (fst (app fw req s)) = json_dumps [(''status'', ''ok'')]
       \<and> body (fst (app fw req s)) = ''{"status":"ok"}''
       \<and> get_header (raw_headers (fst (app fw req s))) ''content-type'' = Some ''application/json''\<close>
  by (simp add: app_health [OF assms] json_health json_dumps_status get_header_simple
      get_header_explicit split: option.split)
    (simp add: get_header_def)

text \<open>C1 at a request with a query string, an origin, a cookie and a body.\<close>

theorem health_get_ok_witness:
  \<open>req_method get_health = ''GET'' \<and> req_path get_health = ''/health''
   \<and> status_code (fst (app sample_framework get_health ())) = 200
   \<and> body (fst (app sample_framework get_health ())) = json_dumps [(''status'', ''ok'')]
   \<and> body (fst (app sample_framework get_health ())) = ''{"status":"ok"}''
   \<and> get_header (raw_headers (fst (app sample_framework get_health ()))) ''content-type''
       = Some ''application/json''\<close>
proof -
  have h: "req_method get_health = ''GET''" "req_path get_health = ''/health''"
    by (simp_all add: get_health_def)
  from h health_get_ok [OF h, of sample_framework "()"] show ?thesis by blast
qed

section \<open>Routing\<close>

text \<open>
  Claim C2, as stated: a request whose method is not GET gets the framework's not-found or
  method-not-allowed response, never a 200. It fails at a CORS preflight on \<^verbatim>\<open>/health\<close>:
  the method is OPTIONS and the status is 200.
\<close>

theorem options_health_preflight_is_200:
  "req_path preflight_get = ''/health'' \<and> req_method preflight_get \<noteq> ''GET''
   \<and> status_code (fst (app sample_framework preflight_get ())) = 200"
  by code_simp

text \<open>
  Claim C2, amended. The routes of the application are the four documentation routes of
  FastAPI and \<^verbatim>\<open>/health\<close>. For a request that is not a CORS preflight: on \<^verbatim>\<open>/health\<close> with a
  method other than GET the response is 405 with \<^verbatim>\<open>allow: GET\<close>; on a path that matches no
  route the response is 404, or the 307 slash redirect when the path with its trailing
  slashes removed (or one added) matches a route. The state of the server is unchanged.
\<close>

theorem unhandled_requests:
  assumes "\<not> is_preflight req"
  shows "map route_path (routes fw) = registered_paths
       \<and> (req_path req = ''/health'' \<and> req_method req \<noteq> ''GET'' \<longrightarrow>
            status_code (fst (app fw req s)) = 405
          \<and> get_header (raw_headers (fst (app fw req s))) ''allow'' = Some ''GET''
          \<and> snd (app fw req s) = s)
       \<and> (\<not> list_ex (\<lambda>p. path_regex_match p (req_path req)) registered_paths \<longrightarrow>
            status_code (fst (app fw req s)) =
              (if req_path req \<noteq> ''/''
                  \<and> list_ex (\<lambda>p. path_regex_match p (redirect_path (req_path req))) registered_paths
               then 307 else 404)
          \<and> snd (app fw req s) = s)"
proof (intro conjI impI)
  show "map route_path (routes fw) = registered_paths" by (rule route_paths)
next
  assume h: "req_path req = ''/health'' \<and> req_method req \<noteq> ''GET''"
  then have e: "ExceptionMiddleware (router_app fw (routes fw)) req s
      = (Inr (JSONResponse [(''detail'', ''Method Not Allowed'')] 405 [(''allow'', ''GET'')]), s)"
    by (simp add: ExceptionMiddleware_def router_health_405 http_405)
  from app_not_preflight [OF assms e]
  show "status_code (fst (app fw req s)) = 405"
    and "snd (app fw req s) = s"
    and "get_header (raw_headers (fst (app fw req s))) ''allow'' = Some ''GET''"
    by (simp_all add: JSONResponse_def Response_def init_headers_def get_header_def)
next
  assume h: "\<not> list_ex (\<lambda>p. path_regex_match p (req_path req)) registered_paths"
  let ?c = "req_path req \<noteq> ''/''
      \<and> list_ex (\<lambda>p. path_regex_match p (redirect_path (req_path req))) registered_paths"
  have e: "ExceptionMiddleware (router_app fw (routes fw)) req s
      = (Inr (if ?c then RedirectResponse (redirect_url fw req (redirect_path (req_path req)))
              else JSONResponse [(''detail'', ''Not Found'')] 404 []), s)"
    by (simp add: ExceptionMiddleware_def router_unmatched [OF h] http_404)
  from app_not_preflight [OF assms e]
  show "status_code (fst (app fw req s)) = (if ?c then 307 else 404)" and "snd (app fw req s) = s"
    by (simp_all add: JSONResponse_def Response_def RedirectResponse_def Let_def)
qed

text \<open>The amended C2 at \<^verbatim>\<open>POST /health\<close> (405) and at \<^verbatim>\<open>GET /unknown\<close> (404).\<close>

theorem unhandled_requests_witness:
  "\<not> is_preflight post_health \<and> req_path post_health = ''/health'' \<and> req_method post_health \<noteq> ''GET''
   \<and> status_code (fst (app sample_framework post_health ())) = 405
   \<and> get_header (raw_headers (fst (app sample_framework post_health ()))) ''allow'' = Some ''GET''
   \<and> \<not> is_preflight get_unknown
   \<and> \<not> list_ex (\<lambda>p. path_regex_match p (req_path get_unknown)) registered_paths
   \<and> status_code (fst (app sample_framework get_unknown ())) = 404"
proof -
  have p: "\<not> is_preflight post_health" "req_path post_health = ''/health''"
    "req_method post_health \<noteq> ''GET''"
    by (simp_all add: post_health_def is_preflight_def get_header_def)
  have u: "\<not> is_preflight get_unknown"
    "\<not> list_ex (\<lambda>p. path_regex_match p (req_path get_unknown)) registered_paths"
    "\<not> (req_path get_unknown \<noteq> ''/''
        \<and> list_ex (\<lambda>p. path_regex_match p (redirect_path (req_path get_unknown))) registered_paths)"
    by (simp_all add: get_unknown_def is_preflight_def get_header_def registered_paths_def
        path_regex_match_def redirect_path_def)
  from p u unhandled_requests [OF p(1), of sample_framework "()"]
    unhandled_requests [OF u(1), of sample_framework "()"]
  show ?thesis by simp
qed

section \<open>CORS headers\<close>




section \<open>Repeated requests\<close>

text \<open>
  Claim C4. A sequence of identical \<^verbatim>\<open>GET /health\<close> requests, of any length, is answered
  with as many copies of the response to the first, and the state of the server after the
  sequence is the state before it.
\<close>

theorem health_idempotent:
  assumes "req_method req = ''GET''" and "req_path req = ''/health''"
  shows "serve fw (replicate n req) s = (replicate n (fst (app fw req s)), s)"
proof (induction n)
  case 0
  show ?case by simp
next
  case (Suc n)
  obtain r where r: "app fw req s = (r, s)"
    using app_health_state [OF assms, of fw s] by (cases "app fw req s") simp
  from Suc show ?case by (simp add: r)
qed

text \<open>C4 at three requests.\<close>

theorem health_idempotent_witness:
  "req_method get_health = ''GET'' \<and> req_path get_health = ''/health''
   \<and> serve sample_framework [get_health, get_health, get_health] ()
       = ([fst (app sample_framework get_health ()), fst (app sample_framework get_health ()),
           fst (app sample_framework get_health ())], ())"
proof -
  have h: "req_method get_health = ''GET''" "req_path get_health = ''/health''"
    by (simp_all add: get_health_def)
  from h health_idempotent [OF h, of sample_framework 3 "()"] show ?thesis
    by (simp add: numeral_3_eq_3)
qed

section \<open>The handler\<close>

text \<open>
  Claim C5. The handler takes no input, and the request handler that calls it does not
  read the request: for any two requests, in the same state, it gives the same result.
\<close>

theorem health_noninterference:
  "get_request_handler health_check req1 s = get_request_handler health_check req2 s"
  by (simp add: get_request_handler_def)

text \<open>
  Claim C6. A call of the handler returns its dict; it raises nothing, and so the request
  handler around it raises nothing either.
\<close>

theorem health_check_cannot_fail:
  "fst (drive (health_check s)) = Inr [(''status'', ''ok'')]
   \<and> (\<forall>e. fst (get_request_handler health_check req s) \<noteq> Inl e)"
  by (simp add: health_check_def get_request_handler_def)

text \<open>
  Claim C7. A call of the handler leaves the state of the server as it was, and so does
  the request handler around it.
\<close>

theorem health_check_no_side_effects:
  "snd (drive (health_check s)) = s \<and> snd (get_request_handler health_check req s) = s"
  by (simp add: health_check_def get_request_handler_def)

text \<open>
  Claim C8. The handler is declared \<^verbatim>\<open>async\<close> and has no \<^verbatim>\<open>await\<close>: a call has finished when
  it is first run, without a suspension, in the state it was called in.
\<close>

theorem health_check_never_suspends:
  "suspensions (health_check s) = 0 \<and> (\<exists>r. health_check s = Done r s)"
  by (simp add: health_check_def)

section \<open>Preflight requests\<close>

text \<open>
  Claim C10, as stated: every preflight is answered with a success response. It fails at
  a preflight that asks for the method TRACE, which is answered with 400.
\<close>

theorem preflight_trace_is_400:
  "is_preflight preflight_trace
   \<and> status_code (fst (app sample_framework preflight_trace ())) = 400"
  by code_simp

text \<open>
  Claim C10, amended. An OPTIONS request to any path with an origin header and an
  \<^verbatim>\<open>access-control-request-method\<close> header is answered by the CORS middleware and does not
  reach the router: the response is the preflight response, whatever the framework and the
  state, which stays as it was. Its status is 200 when the requested method is one of
  DELETE, GET, HEAD, OPTIONS, PATCH, POST and PUT and 400 otherwise, never 404 or 405, and
  either way it carries the allow headers: the request's origin, the seven methods,
  credentials, and the headers the request asks for.
\<close>

theorem preflight_answered_by_cors:
  assumes "is_preflight req"
  shows "Inr (fst (app fw req s)) = preflight_response cors (req_headers req)
       \<and> snd (app fw req s) = s
       \<and> status_code (fst (app fw req s)) =
           (if get_header (req_headers req) ''access-control-request-method'' \<in> Some ` set ALL_METHODS
            then 200 else 400)
       \<and> status_code (fst (app fw req s)) \<noteq> 404 \<and> status_code (fst (app fw req s)) \<noteq> 405
       \<and> get_header (raw_headers (fst (app fw req s))) ''access-control-allow-origin''
           = get_header (req_headers req) ''origin''
       \<and> get_header (raw_headers (fst (app fw req s))) ''access-control-allow-methods''
           = Some ''DELETE, GET, HEAD, OPTIONS, PATCH, POST, PUT''
       \<and> get_header (raw_headers (fst (app fw req s))) ''access-control-allow-credentials'' = Some ''true''
       \<and> get_header (raw_headers (fst (app fw req s))) ''access-control-allow-headers''
           = get_header (req_headers req) ''access-control-request-headers''"
proof -
  from assms obtain origin where
    o: "get_header (req_headers req) ''origin'' = Some origin"
    by (auto simp: is_preflight_def)
  show ?thesis
    using app_preflight [OF assms, of fw s] o
    by (simp add: app_preflight_status [OF assms] app_preflight_headers [OF assms o]
        preflight_headers_lookup)
qed

text \<open>The amended C10 at a preflight on \<^verbatim>\<open>/health\<close> that asks for GET.\<close>

theorem preflight_answered_by_cors_witness:
  "is_preflight preflight_get
   \<and> Inr (fst (app sample_framework preflight_get ())) = preflight_response cors (req_headers preflight_get)
   \<and> status_code (fst (app sample_framework preflight_get ())) = 200
   \<and> get_header (raw_headers (fst (app sample_framework preflight_get ())))
       ''access-control-allow-origin'' = Some ''http://example.com''
   \<and> get_header (raw_headers (fst (app sample_framework preflight_get ())))
       ''access-control-allow-methods'' = Some ''DELETE, GET, HEAD, OPTIONS, PATCH, POST, PUT''
   \<and> get_header (raw_headers (fst (app sample_framework preflight_get ())))
       ''access-control-allow-credentials'' = Some ''true''"
proof -
  have p: "is_preflight preflight_get"
    "get_header (req_headers preflight_get) ''origin'' = Some ''http://example.com''"
    "get_header (req_headers preflight_get) ''access-control-request-method'' \<in> Some ` set ALL_METHODS"
    by (simp_all add: preflight_get_def get_header_def is_preflight_def has_header_def ALL_METHODS_def)
  from p preflight_answered_by_cors [OF p(1), of sample_framework "()"]
  show ?thesis by simp
qed

end
